theory Spec2Isabelle
  imports Main "HOL-Library.Word" "HOL-Library.Monad_Syntax"
begin

unbundle bit_operations_syntax

section \<open>C++ integers and shifts\<close>

text \<open>
  The header works on \<open>uint16_t\<close> and \<open>uint32_t\<close> values and, through the integer
  promotions, on \<open>int\<close> and \<open>unsigned int\<close>, both 32 bits wide.  All four are words;
  an \<open>int\<close> is read through \<open>sint\<close> (two's complement).  A conversion between
  them is \<open>ucast\<close>: every converted value below is either unsigned or a non-negative
  \<open>int\<close>, or it is narrowed, which keeps the low bits.

  The macro arguments \<open>START\<close> and \<open>END\<close> are integer constant expressions, so they are
  of type \<open>int\<close> in HOL as well and the shift amounts are computed by integer arithmetic.

  A shift whose right operand is negative, or not less than the width of the promoted
  left operand, has undefined behaviour in C++.  The shifts of the model return \<open>None\<close>
  there, and every accessor is a computation in the option monad.  A left shift of an
  \<open>int\<close> by an amount in range is taken in two's complement (\<open>1 << 31\<close> is the least
  \<open>int\<close>), as C++20 and every mainstream compiler have it.
\<close>

type_synonym uint8_t = "8 word"
type_synonym uint16_t = "16 word"
type_synonym uint32_t = "32 word"
type_synonym c_int = "32 word"
type_synonym c_uint = "32 word"

definition shift_ok :: "nat \<Rightarrow> int \<Rightarrow> bool" where
  "shift_ok width n \<longleftrightarrow> 0 \<le> n \<and> n < int width"

text \<open>\<open>x << n\<close>, on \<open>int\<close> and on \<open>unsigned int\<close>.\<close>

definition shl :: "'a::len word \<Rightarrow> int \<Rightarrow> 'a word option" where
  "shl x n = (if shift_ok LENGTH('a) n then Some (push_bit (nat n) x) else None)"

text \<open>\<open>x >> n\<close> on an unsigned operand.\<close>

definition shr_unsigned :: "'a::len word \<Rightarrow> int \<Rightarrow> 'a word option" where
  "shr_unsigned x n = (if shift_ok LENGTH('a) n then Some (drop_bit (nat n) x) else None)"

text \<open>\<open>x >> n\<close> on a signed operand: the arithmetic shift.\<close>

definition shr_signed :: "'a::len word \<Rightarrow> int \<Rightarrow> 'a word option" where
  "shr_signed x n = (if shift_ok LENGTH('a) n then Some (signed_drop_bit (nat n) x) else None)"

section \<open>Permissions\<close>

datatype REGISTER_PERMS = NONE | READ | WRITE | READ_WRITE

text \<open>The enumerators' values; \<open>static_cast<uint8_t>(PERMS)\<close>.\<close>

fun perms_value :: "REGISTER_PERMS \<Rightarrow> uint8_t" where
  "perms_value NONE = 0"
| "perms_value READ = 1"
| "perms_value WRITE = 2"
| "perms_value READ_WRITE = 3"

text \<open>\<open>static const bool allowed = static_cast<uint8_t>(PERMS) & 0b01;\<close> and the same
  with \<open>0b10\<close>: the operand is promoted to \<open>int\<close>, and the result is converted to \<open>bool\<close>.\<close>

definition read_allowed :: "REGISTER_PERMS \<Rightarrow> bool" where
  "read_allowed PERMS \<longleftrightarrow> (ucast (perms_value PERMS) :: c_int) AND 1 \<noteq> 0"

definition write_allowed :: "REGISTER_PERMS \<Rightarrow> bool" where
  "write_allowed PERMS \<longleftrightarrow> (ucast (perms_value PERMS) :: c_int) AND 2 \<noteq> 0"

section \<open>The register classes\<close>

text \<open>Each \<open>DECLARE_REGISTER\<close> macro declares a class whose only data member is
  \<open>register_raw\<close>, initialised to \<open>0x0\<close>: a \<open>uint16_t\<close> in the 16-bit classes and a
  \<open>uint32_t\<close> in the 32-bit ones.  Two records cannot share a field name, so the member
  of the 32-bit classes is \<open>register_raw32\<close> here.\<close>

record register_16 =
  register_raw :: uint16_t

record register_32 =
  register_raw32 :: uint32_t

definition new_register_16 :: register_16 where
  "new_register_16 = \<lparr>register_raw = 0\<rparr>"

definition new_register_32 :: register_32 where
  "new_register_32 = \<lparr>register_raw32 = 0\<rparr>"

text \<open>The two static assertions of every field macro.\<close>

definition static_assert_16 :: "int \<Rightarrow> int \<Rightarrow> bool" where
  "static_assert_16 START END \<longleftrightarrow>
     (START \<ge> 0 \<and> START < 16) \<and> (END \<ge> 0 \<and> END < 16 \<and> END \<ge> START)"

definition static_assert_32 :: "int \<Rightarrow> int \<Rightarrow> bool" where
  "static_assert_32 START END \<longleftrightarrow>
     (START \<ge> 0 \<and> START < 32) \<and> (END \<ge> 0 \<and> END < 32 \<and> END \<ge> START)"

subsection \<open>Fields of a 16-bit register\<close>

text \<open>\<open>IMPLEMENT_REGISTER_16_GET\<close>: \<open>register_raw\<close> and \<open>buffer\<close> are promoted to
  \<open>int\<close>, \<open>0xFFFF\<close> is an \<open>int\<close>, and the result is narrowed to \<open>uint16_t\<close>.\<close>

definition IMPLEMENT_REGISTER_16_GET :: "int \<Rightarrow> int \<Rightarrow> register_16 \<Rightarrow> uint16_t option" where
  "IMPLEMENT_REGISTER_16_GET START END r = do {
     shifted \<leftarrow> shr_signed (ucast (register_raw r) :: c_int) START;
     let buffer = (ucast shifted :: uint16_t);
     m \<leftarrow> shr_signed (0xFFFF :: c_int) (15 - (END - START));
     Some (ucast ((ucast buffer :: c_int) AND m))
   }"

text \<open>\<open>IMPLEMENT_REGISTER_16_SET\<close>: \<open>value\<close> is promoted to \<open>int\<close> and compared, as an
  \<open>int\<close>, with \<open>1 << (END - START + 1)\<close>.\<close>

definition IMPLEMENT_REGISTER_16_SET ::
  "int \<Rightarrow> int \<Rightarrow> uint16_t \<Rightarrow> register_16 \<Rightarrow> (bool \<times> register_16) option" where
  "IMPLEMENT_REGISTER_16_SET START END v r = do {
     limit \<leftarrow> shl (1 :: c_int) (END - START + 1);
     if sint (ucast v :: c_int) \<ge> sint limit then Some (False, r)
     else do {
       ones \<leftarrow> shr_signed (0xFFFF :: c_int) (15 - (END - START));
       field \<leftarrow> shl ones START;
       let mask = (ucast (NOT field) :: uint16_t);
       let raw1 = (ucast ((ucast (register_raw r) :: c_int) AND (ucast mask :: c_int)) :: uint16_t);
       shifted \<leftarrow> shl (ucast v :: c_int) START;
       let v1 = (ucast shifted :: uint16_t);
       let raw2 = (ucast ((ucast raw1 :: c_int) OR (ucast v1 :: c_int)) :: uint16_t);
       Some (True, r\<lparr>register_raw := raw2\<rparr>)
     }
   }"

definition IMPLEMENT_REGISTER_16_GET_WITH_PERMS ::
  "int \<Rightarrow> int \<Rightarrow> REGISTER_PERMS \<Rightarrow> register_16 \<Rightarrow> uint16_t option" where
  "IMPLEMENT_REGISTER_16_GET_WITH_PERMS START END PERMS r =
     (if \<not> read_allowed PERMS then Some (of_bool False)
      else do {
        shifted \<leftarrow> shr_signed (ucast (register_raw r) :: c_int) START;
        let buffer = (ucast shifted :: uint16_t);
        m \<leftarrow> shr_signed (0xFFFF :: c_int) (15 - (END - START));
        Some (ucast ((ucast buffer :: c_int) AND m))
      })"

definition IMPLEMENT_REGISTER_16_SET_WITH_PERMS ::
  "int \<Rightarrow> int \<Rightarrow> REGISTER_PERMS \<Rightarrow> uint16_t \<Rightarrow> register_16 \<Rightarrow> (bool \<times> register_16) option" where
  "IMPLEMENT_REGISTER_16_SET_WITH_PERMS START END PERMS v r =
     (if \<not> write_allowed PERMS then Some (False, r)
      else do {
        limit \<leftarrow> shl (1 :: c_int) (END - START + 1);
        if sint (ucast v :: c_int) \<ge> sint limit then Some (False, r)
        else do {
          ones \<leftarrow> shr_signed (0xFFFF :: c_int) (15 - (END - START));
          field \<leftarrow> shl ones START;
          let mask = (ucast (NOT field) :: uint16_t);
          let raw1 = (ucast ((ucast (register_raw r) :: c_int) AND (ucast mask :: c_int)) :: uint16_t);
          shifted \<leftarrow> shl (ucast v :: c_int) START;
          let v1 = (ucast shifted :: uint16_t);
          let raw2 = (ucast ((ucast raw1 :: c_int) OR (ucast v1 :: c_int)) :: uint16_t);
          Some (True, r\<lparr>register_raw := raw2\<rparr>)
        }
      })"

subsection \<open>Fields of a 32-bit register\<close>

text \<open>\<open>IMPLEMENT_REGISTER_32_GET\<close>: the method returns \<open>uint16_t\<close> and \<open>buffer\<close> is a
  \<open>uint16_t\<close>, so \<open>register_raw >> START\<close> is narrowed to 16 bits.  \<open>0xFFFF'FFFF\<close> is an
  \<open>unsigned int\<close>; \<open>buffer\<close> is promoted to \<open>int\<close> and converted to \<open>unsigned int\<close>.\<close>

definition IMPLEMENT_REGISTER_32_GET :: "int \<Rightarrow> int \<Rightarrow> register_32 \<Rightarrow> uint16_t option" where
  "IMPLEMENT_REGISTER_32_GET START END r = do {
     shifted \<leftarrow> shr_unsigned (register_raw32 r) START;
     let buffer = (ucast shifted :: uint16_t);
     m \<leftarrow> shr_unsigned (0xFFFFFFFF :: c_uint) (31 - (END - START));
     Some (ucast ((ucast buffer :: c_uint) AND m))
   }"

text \<open>\<open>IMPLEMENT_REGISTER_32_SET\<close>: \<open>1 << (END - START + 1)\<close> is a shift of the \<open>int\<close>
  \<open>1\<close>; its result is converted to \<open>unsigned int\<close> for the comparison with \<open>value\<close>.\<close>

definition IMPLEMENT_REGISTER_32_SET ::
  "int \<Rightarrow> int \<Rightarrow> uint32_t \<Rightarrow> register_32 \<Rightarrow> (bool \<times> register_32) option" where
  "IMPLEMENT_REGISTER_32_SET START END v r = do {
     limit \<leftarrow> shl (1 :: c_int) (END - START + 1);
     if v \<ge> (ucast limit :: c_uint) then Some (False, r)
     else do {
       ones \<leftarrow> shr_unsigned (0xFFFFFFFF :: c_uint) (31 - (END - START));
       field \<leftarrow> shl ones START;
       let mask = (NOT field :: uint32_t);
       let raw1 = register_raw32 r AND mask;
       v1 \<leftarrow> shl v START;
       let raw2 = raw1 OR v1;
       Some (True, r\<lparr>register_raw32 := raw2\<rparr>)
     }
   }"

definition IMPLEMENT_REGISTER_32_GET_WITH_PERMS ::
  "int \<Rightarrow> int \<Rightarrow> REGISTER_PERMS \<Rightarrow> register_32 \<Rightarrow> uint16_t option" where
  "IMPLEMENT_REGISTER_32_GET_WITH_PERMS START END PERMS r =
     (if \<not> read_allowed PERMS then Some (of_bool False)
      else do {
        shifted \<leftarrow> shr_unsigned (register_raw32 r) START;
        let buffer = (ucast shifted :: uint16_t);
        m \<leftarrow> shr_unsigned (0xFFFFFFFF :: c_uint) (31 - (END - START));
        Some (ucast ((ucast buffer :: c_uint) AND m))
      })"

definition IMPLEMENT_REGISTER_32_SET_WITH_PERMS ::
  "int \<Rightarrow> int \<Rightarrow> REGISTER_PERMS \<Rightarrow> uint32_t \<Rightarrow> register_32 \<Rightarrow> (bool \<times> register_32) option" where
  "IMPLEMENT_REGISTER_32_SET_WITH_PERMS START END PERMS v r =
     (if \<not> write_allowed PERMS then Some (False, r)
      else do {
        limit \<leftarrow> shl (1 :: c_int) (END - START + 1);
        if v \<ge> (ucast limit :: c_uint) then Some (False, r)
        else do {
          ones \<leftarrow> shr_unsigned (0xFFFFFFFF :: c_uint) (31 - (END - START));
          field \<leftarrow> shl ones START;
          let mask = (NOT field :: uint32_t);
          let raw1 = register_raw32 r AND mask;
          v1 \<leftarrow> shl v START;
          let raw2 = raw1 OR v1;
          Some (True, r\<lparr>register_raw32 := raw2\<rparr>)
        }
      })"

subsection \<open>Whole-register members\<close>

text \<open>\<open>DECLARE_REGISTER_16\<close> and \<open>DECLARE_REGISTER_16_WITH_PERMS\<close> declare the same three
  members, and so do the two 32-bit macros.\<close>

definition get_register_value_16 :: "register_16 \<Rightarrow> uint16_t" where
  "get_register_value_16 r = register_raw r"

definition clear_register_value_16 :: "register_16 \<Rightarrow> register_16" where
  "clear_register_value_16 r = r\<lparr>register_raw := 0x0\<rparr>"

definition set_register_value_16 :: "uint16_t \<Rightarrow> register_16 \<Rightarrow> register_16" where
  "set_register_value_16 v r = r\<lparr>register_raw := v\<rparr>"

definition get_register_value_32 :: "register_32 \<Rightarrow> uint32_t" where
  "get_register_value_32 r = register_raw32 r"

definition clear_register_value_32 :: "register_32 \<Rightarrow> register_32" where
  "clear_register_value_32 r = r\<lparr>register_raw32 := 0x0\<rparr>"

definition set_register_value_32 :: "uint32_t \<Rightarrow> register_32 \<Rightarrow> register_32" where
  "set_register_value_32 v r = r\<lparr>register_raw32 := v\<rparr>"

text \<open>The classes declared by \<open>DECLARE_REGISTER_16_WITH_PERMS\<close> and
  \<open>DECLARE_REGISTER_32_WITH_PERMS\<close>: the three whole-register members are written out
  again there, and none of them mentions a field or its \<open>PERMS\<close>.\<close>

definition get_register_value_16_with_perms :: "register_16 \<Rightarrow> uint16_t" where
  "get_register_value_16_with_perms r = register_raw r"

definition clear_register_value_16_with_perms :: "register_16 \<Rightarrow> register_16" where
  "clear_register_value_16_with_perms r = r\<lparr>register_raw := 0x0\<rparr>"

definition set_register_value_16_with_perms :: "uint16_t \<Rightarrow> register_16 \<Rightarrow> register_16" where
  "set_register_value_16_with_perms v r = r\<lparr>register_raw := v\<rparr>"

definition get_register_value_32_with_perms :: "register_32 \<Rightarrow> uint32_t" where
  "get_register_value_32_with_perms r = register_raw32 r"

definition clear_register_value_32_with_perms :: "register_32 \<Rightarrow> register_32" where
  "clear_register_value_32_with_perms r = r\<lparr>register_raw32 := 0x0\<rparr>"

definition set_register_value_32_with_perms :: "uint32_t \<Rightarrow> register_32 \<Rightarrow> register_32" where
  "set_register_value_32_with_perms v r = r\<lparr>register_raw32 := v\<rparr>"

subsection \<open>The registers of the example program\<close>

text \<open>\<open>link_capabilites_register\<close>, declared with \<open>DECLARE_REGISTER_32\<close>: the three
  field accessors the example and the documentation call.\<close>

definition get_aspm_support :: "register_32 \<Rightarrow> uint16_t option" where
  "get_aspm_support = IMPLEMENT_REGISTER_32_GET 10 11"

definition set_max_link_speed :: "uint32_t \<Rightarrow> register_32 \<Rightarrow> (bool \<times> register_32) option" where
  "set_max_link_speed = IMPLEMENT_REGISTER_32_SET 0 3"

definition set_port_number :: "uint32_t \<Rightarrow> register_32 \<Rightarrow> (bool \<times> register_32) option" where
  "set_port_number = IMPLEMENT_REGISTER_32_SET 24 31"

text \<open>\<open>link_control_register\<close>, declared with \<open>DECLARE_REGISTER_16_WITH_PERMS\<close>.\<close>

definition set_root_completion_boundary ::
  "uint16_t \<Rightarrow> register_16 \<Rightarrow> (bool \<times> register_16) option" where
  "set_root_completion_boundary = IMPLEMENT_REGISTER_16_SET_WITH_PERMS 3 3 READ"

definition set_link_disable :: "uint16_t \<Rightarrow> register_16 \<Rightarrow> (bool \<times> register_16) option" where
  "set_link_disable = IMPLEMENT_REGISTER_16_SET_WITH_PERMS 4 4 READ_WRITE"

definition get_link_disable :: "register_16 \<Rightarrow> uint16_t option" where
  "get_link_disable = IMPLEMENT_REGISTER_16_GET_WITH_PERMS 4 4 READ_WRITE"

section \<open>Arithmetic of the promoted operands\<close>


lemma uint_promote: "uint (ucast (v :: 16 word) :: 32 word) = uint v"
proof -
  have "uint v < 2 ^ 16" using uint_bounded [of v] by simp
  then have "uint v < 2 ^ 32" by simp
  then show ?thesis by (simp add: unsigned_ucast_eq take_bit_int_eq_self)
qed

lemma sint_promote: "sint (ucast (v :: 16 word) :: 32 word) = uint v"
proof -
  have "uint v < 2 ^ 16" using uint_bounded [of v] by simp
  then have hi: "uint v < 2 ^ 31" by simp
  have lo: "- (2 ^ 31) \<le> uint v" by (rule order_trans [of _ 0]) simp_all
  have "signed_take_bit 31 (uint v) = uint v"
    using lo hi by (rule signed_take_bit_int_eq_self)
  then show ?thesis
    by (simp add: sint_uint uint_promote)
qed

lemma uint_limit: "w < 32 \<Longrightarrow> uint (2 ^ w :: 32 word) = 2 ^ w"
  by (rule uint_2p) (simp add: word_gt_0)

lemma sint_limit:
  assumes w: "w < 31" shows "sint (2 ^ w :: 32 word) = 2 ^ w"
proof -
  have hi: "(2::int) ^ w < 2 ^ 31" using w by (rule power_strict_increasing) simp
  have lo: "- (2 ^ 31) \<le> (2::int) ^ w" by (rule order_trans [of _ 0]) simp_all
  have "signed_take_bit 31 ((2::int) ^ w) = 2 ^ w"
    using lo hi by (rule signed_take_bit_int_eq_self)
  then show ?thesis using w
    by (simp add: sint_uint uint_limit)
qed

lemma ones32: "(0xFFFFFFFF :: 32 word) = mask 32"
  by (simp add: mask_eq_exp_minus_1)

lemma ones16: "(0xFFFF :: 32 word) = mask 16"
  by (simp add: mask_eq_exp_minus_1)

lemma fits_take_bit:
  assumes "uint (v :: 'a::len word) < 2 ^ w" shows "take_bit w v = v"
proof -
  have "uint (take_bit w v) = take_bit w (uint v)" by (simp add: unsigned_take_bit_eq)
  also have "\<dots> = uint v" using assms by (simp add: take_bit_int_eq_self)
  finally show ?thesis by (simp add: word_eq_iff_unsigned [where ?'a = int])
qed

lemma fits_bit: "uint (v :: 'a::len word) < 2 ^ w \<Longrightarrow> bit v n \<Longrightarrow> n < w"
  using fits_take_bit [of v w] by (metis bit_take_bit_iff)

lemma shr_promoted: "signed_drop_bit n (ucast (x :: 16 word) :: 32 word) = drop_bit n (ucast x)"
  by (auto simp add: bit_eq_iff bit_simps dest: bit_imp_le_length)

lemma shr_ones16: "signed_drop_bit n (mask 16 :: 32 word) = mask (16 - n)"
  by (auto simp add: bit_eq_iff bit_simps)

lemma shr_ones32: "drop_bit n (mask 32 :: 32 word) = mask (32 - n)"
  by (auto simp add: bit_eq_iff bit_simps)

lemma get16_word:
  "k + w \<le> 16 \<Longrightarrow>
   (ucast ((ucast (ucast (drop_bit k (ucast (x :: 16 word) :: 32 word)) :: 16 word) :: 32 word) AND mask w) :: 16 word)
     = take_bit w (drop_bit k x)"
  by (auto simp add: bit_eq_iff bit_simps)

lemma set16_word:
  "k + w \<le> 16 \<Longrightarrow>
   (ucast ((ucast (ucast ((ucast (x :: 16 word) :: 32 word)
              AND (ucast (ucast (NOT (push_bit k (mask w :: 32 word))) :: 16 word) :: 32 word)) :: 16 word) :: 32 word)
           OR (ucast (ucast (push_bit k (ucast (v :: 16 word) :: 32 word)) :: 16 word) :: 32 word)) :: 16 word)
     = (x AND NOT (push_bit k (mask w))) OR push_bit k v"
  by (auto simp add: bit_eq_iff bit_simps)

lemma get32_word:
  "(ucast ((ucast (ucast (drop_bit k (x :: 32 word)) :: 16 word) :: 32 word) AND mask w) :: 16 word)
     = ucast (take_bit w (drop_bit k x))"
  by (auto simp add: bit_eq_iff bit_simps)

lemma roundtrip_word:
  fixes x v :: "'a::len word"
  assumes "uint v < 2 ^ w" and "k + w \<le> LENGTH('a)"
  shows "take_bit w (drop_bit k ((x AND NOT (push_bit k (mask w))) OR push_bit k v)) = v"
proof (rule bit_word_eqI)
  fix n assume "n < LENGTH('a)"
  show "bit (take_bit w (drop_bit k ((x AND NOT (push_bit k (mask w))) OR push_bit k v))) n = bit v n"
    using fits_bit [OF assms(1), of n] assms(2) by (auto simp add: bit_simps)
qed

lemma frame_word:
  fixes x v :: "'a::len word"
  assumes "uint v < 2 ^ w" and "n < k \<or> k + w \<le> n"
  shows "bit ((x AND NOT (push_bit k (mask w))) OR push_bit k v) n = bit x n"
  using fits_bit [OF assms(1), of "n - k"] assms(2)
  by (auto simp add: bit_simps dest: bit_imp_le_length)

lemma get16_closed:
  assumes "static_assert_16 s e"
  shows "IMPLEMENT_REGISTER_16_GET s e r =
     Some (take_bit (nat (e - s + 1)) (drop_bit (nat s) (register_raw r)))"
proof -
  from assms have a: "0 \<le> s" "s \<le> e" "e < 16" by (auto simp: static_assert_16_def)
  define k where "k = nat s"
  define w where "w = nat (e - s + 1)"
  have kw: "k + w \<le> 16" using a by (auto simp: k_def w_def)
  have sh: "16 - nat (15 - (e - s)) = w" using a by (simp add: w_def)
  show ?thesis using a get16_word [OF kw, of "register_raw r"]
    by (simp add: IMPLEMENT_REGISTER_16_GET_def shr_signed_def shift_ok_def ones16
        shr_promoted shr_ones16 sh flip: k_def w_def)
qed

lemma get32_closed:
  assumes "static_assert_32 s e"
  shows "IMPLEMENT_REGISTER_32_GET s e r =
     Some (ucast (take_bit (nat (e - s + 1)) (drop_bit (nat s) (register_raw32 r))))"
proof -
  from assms have a: "0 \<le> s" "s \<le> e" "e < 32" by (auto simp: static_assert_32_def)
  have sh: "32 - nat (31 - (e - s)) = nat (e - s + 1)" using a by simp
  show ?thesis using a
    by (simp add: IMPLEMENT_REGISTER_32_GET_def shr_unsigned_def shift_ok_def ones32
        shr_ones32 sh get32_word)
qed

lemma set16_closed:
  assumes "static_assert_16 s e"
  shows "IMPLEMENT_REGISTER_16_SET s e v r =
     (if uint v \<ge> 2 ^ nat (e - s + 1) then Some (False, r)
      else Some (True, r\<lparr>register_raw :=
             (register_raw r AND NOT (push_bit (nat s) (mask (nat (e - s + 1)))))
               OR push_bit (nat s) v\<rparr>))"
proof -
  from assms have a: "0 \<le> s" "s \<le> e" "e < 16" by (auto simp: static_assert_16_def)
  define k where "k = nat s"
  define w where "w = nat (e - s + 1)"
  have kw: "k + w \<le> 16" using a by (auto simp: k_def w_def)
  have sh: "16 - nat (15 - (e - s)) = w" using a by (simp add: w_def)
  have lim: "sint (2 ^ w :: 32 word) = 2 ^ w" using kw by (simp add: sint_limit)
  show ?thesis using a set16_word [OF kw, of "register_raw r" v]
    by (simp add: IMPLEMENT_REGISTER_16_SET_def shl_def shr_signed_def shift_ok_def ones16
        shr_ones16 sh push_bit_of_1 sint_promote lim Let_def flip: k_def w_def)
qed

lemma set32_undefined:
  assumes "static_assert_32 s e" and "e - s = 31"
  shows "IMPLEMENT_REGISTER_32_SET s e v r = None"
  using assms by (simp add: IMPLEMENT_REGISTER_32_SET_def shl_def shift_ok_def)

lemma set32_closed:
  assumes "static_assert_32 s e" and "e - s < 31"
  shows "IMPLEMENT_REGISTER_32_SET s e v r =
     (if uint v \<ge> 2 ^ nat (e - s + 1) then Some (False, r)
      else Some (True, r\<lparr>register_raw32 :=
             (register_raw32 r AND NOT (push_bit (nat s) (mask (nat (e - s + 1)))))
               OR push_bit (nat s) v\<rparr>))"
proof -
  from assms have a: "0 \<le> s" "s \<le> e" "e < 32" by (auto simp: static_assert_32_def)
  define w where "w = nat (e - s + 1)"
  have w: "w < 32" using a assms(2) by (simp add: w_def)
  have sh: "32 - nat (31 - (e - s)) = w" using a by (simp add: w_def)
  have lim: "uint (2 ^ w :: 32 word) = 2 ^ w" using w by (simp add: uint_limit)
  show ?thesis using a assms(2)
    by (simp add: IMPLEMENT_REGISTER_32_SET_def shl_def shr_unsigned_def shift_ok_def ones32
        shr_ones32 sh push_bit_of_1 word_le_def lim Let_def flip: w_def)
qed



section \<open>Permission checks\<close>

lemma read_allowed_iff: "read_allowed p \<longleftrightarrow> p = READ \<or> p = READ_WRITE"
  by (cases p) (simp_all add: read_allowed_def)

lemma write_allowed_iff: "write_allowed p \<longleftrightarrow> p = WRITE \<or> p = READ_WRITE"
  by (cases p) (simp_all add: write_allowed_def)

lemma get16_with_perms:
  "IMPLEMENT_REGISTER_16_GET_WITH_PERMS s e p r =
     (if read_allowed p then IMPLEMENT_REGISTER_16_GET s e r else Some 0)"
  by (simp add: IMPLEMENT_REGISTER_16_GET_WITH_PERMS_def IMPLEMENT_REGISTER_16_GET_def)

lemma get32_with_perms:
  "IMPLEMENT_REGISTER_32_GET_WITH_PERMS s e p r =
     (if read_allowed p then IMPLEMENT_REGISTER_32_GET s e r else Some 0)"
  by (simp add: IMPLEMENT_REGISTER_32_GET_WITH_PERMS_def IMPLEMENT_REGISTER_32_GET_def)

lemma set16_with_perms:
  "IMPLEMENT_REGISTER_16_SET_WITH_PERMS s e p v r =
     (if write_allowed p then IMPLEMENT_REGISTER_16_SET s e v r else Some (False, r))"
  by (simp add: IMPLEMENT_REGISTER_16_SET_WITH_PERMS_def IMPLEMENT_REGISTER_16_SET_def)

lemma set32_with_perms:
  "IMPLEMENT_REGISTER_32_SET_WITH_PERMS s e p v r =
     (if write_allowed p then IMPLEMENT_REGISTER_32_SET s e v r else Some (False, r))"
  by (simp add: IMPLEMENT_REGISTER_32_SET_WITH_PERMS_def IMPLEMENT_REGISTER_32_SET_def)

section \<open>Field accessors in closed form\<close>

lemma field_bounds_16:
  assumes "static_assert_16 s e"
  shows "nat s + nat (e - s + 1) \<le> 16"
  using assms by (auto simp: static_assert_16_def)

lemma field_bounds_32:
  assumes "static_assert_32 s e"
  shows "nat s + nat (e - s + 1) \<le> 32"
  using assms by (auto simp: static_assert_32_def)

lemma outside_field:
  assumes "0 \<le> s" and "s \<le> e" and "int i < s \<or> e < int i"
  shows "i < nat s \<or> nat s + nat (e - s + 1) \<le> i"
  using assms by auto

lemma set16_succeeds:
  assumes "static_assert_16 s e" and "uint v < 2 ^ nat (e - s + 1)"
  shows "IMPLEMENT_REGISTER_16_SET s e v r =
     Some (True, r\<lparr>register_raw :=
        (register_raw r AND NOT (push_bit (nat s) (mask (nat (e - s + 1))))) OR push_bit (nat s) v\<rparr>)"
  using assms(2) by (simp add: set16_closed [OF assms(1)])

lemma set32_succeeds:
  assumes "static_assert_32 s e" and "e - s < 31" and "uint v < 2 ^ nat (e - s + 1)"
  shows "IMPLEMENT_REGISTER_32_SET s e v r =
     Some (True, r\<lparr>register_raw32 :=
        (register_raw32 r AND NOT (push_bit (nat s) (mask (nat (e - s + 1))))) OR push_bit (nat s) v\<rparr>)"
  using assms(3) by (simp add: set32_closed [OF assms(1,2)])

lemma set32_Some:
  assumes "static_assert_32 s e" and "IMPLEMENT_REGISTER_32_SET s e v r = Some res"
  shows "e - s < 31"
proof (rule ccontr)
  assume "\<not> e - s < 31"
  with assms(1) have "e - s = 31" by (auto simp: static_assert_32_def)
  with assms show False by (simp add: set32_undefined)
qed

lemma field_roundtrip_16:
  assumes "static_assert_16 s e" and "uint v < 2 ^ nat (e - s + 1)"
  shows "\<exists>r'. IMPLEMENT_REGISTER_16_SET s e v r = Some (True, r')
           \<and> IMPLEMENT_REGISTER_16_GET s e r' = Some v"
proof -
  define x where "x = (register_raw r AND NOT (push_bit (nat s) (mask (nat (e - s + 1)))))
                        OR push_bit (nat s) v"
  have fld: "nat s + nat (e - s + 1) \<le> LENGTH(16)"
    using field_bounds_16 [OF assms(1)] by simp
  have rt: "take_bit (nat (e - s + 1)) (drop_bit (nat s) x) = v"
    unfolding x_def using assms(2) fld by (rule roundtrip_word)
  have "IMPLEMENT_REGISTER_16_SET s e v r = Some (True, r\<lparr>register_raw := x\<rparr>)"
    unfolding x_def using assms by (rule set16_succeeds)
  moreover have "IMPLEMENT_REGISTER_16_GET s e (r\<lparr>register_raw := x\<rparr>) = Some v"
    by (simp add: get16_closed [OF assms(1)] rt)
  ultimately show ?thesis by blast
qed

lemma field_roundtrip_32_narrow:
  assumes "static_assert_32 s e" and "e - s < 16" and "uint v < 2 ^ nat (e - s + 1)"
  shows "\<exists>r'. IMPLEMENT_REGISTER_32_SET s e v r = Some (True, r')
           \<and> IMPLEMENT_REGISTER_32_GET s e r' = Some (ucast v) \<and> ucast (ucast v :: uint16_t) = v"
proof -
  define x where "x = (register_raw32 r AND NOT (push_bit (nat s) (mask (nat (e - s + 1)))))
                        OR push_bit (nat s) v"
  have w: "nat (e - s + 1) \<le> 16" using assms(1,2) by (simp add: static_assert_32_def)
  have lt: "e - s < 31" using assms(2) by simp
  have fld: "nat s + nat (e - s + 1) \<le> LENGTH(32)"
    using field_bounds_32 [OF assms(1)] by simp
  have rt: "take_bit (nat (e - s + 1)) (drop_bit (nat s) x) = v"
    unfolding x_def using assms(3) fld by (rule roundtrip_word)
  have same: "ucast (ucast v :: uint16_t) = v"
  proof (rule bit_word_eqI)
    fix n assume "n < LENGTH(32)"
    show "bit (ucast (ucast v :: uint16_t) :: uint32_t) n = bit v n"
      using fits_bit [OF assms(3), of n] w by (auto simp add: bit_simps)
  qed
  have "IMPLEMENT_REGISTER_32_SET s e v r = Some (True, r\<lparr>register_raw32 := x\<rparr>)"
    unfolding x_def using assms(1) lt assms(3) by (rule set32_succeeds)
  moreover have "IMPLEMENT_REGISTER_32_GET s e (r\<lparr>register_raw32 := x\<rparr>) = Some (ucast v)"
    by (simp add: get32_closed [OF assms(1)] rt)
  ultimately show ?thesis using same by blast
qed

lemma set_frame_16:
  assumes "static_assert_16 s e" and "IMPLEMENT_REGISTER_16_SET s e v r = Some (True, r')"
    and "int i < s \<or> e < int i"
  shows "bit (register_raw r') i = bit (register_raw r) i"
proof -
  have fit: "uint v < 2 ^ nat (e - s + 1)"
    using assms(2) by (simp add: set16_closed [OF assms(1)] split: if_splits)
  have out: "i < nat s \<or> nat s + nat (e - s + 1) \<le> i"
    using assms(1,3) by (intro outside_field) (auto simp: static_assert_16_def)
  have "r' = r\<lparr>register_raw :=
        (register_raw r AND NOT (push_bit (nat s) (mask (nat (e - s + 1))))) OR push_bit (nat s) v\<rparr>"
    using assms(2) by (simp add: set16_succeeds [OF assms(1) fit])
  then show ?thesis by (simp add: frame_word [OF fit out])
qed

lemma set_frame_32:
  assumes "static_assert_32 s e" and "IMPLEMENT_REGISTER_32_SET s e v r = Some (True, r')"
    and "int i < s \<or> e < int i"
  shows "bit (register_raw32 r') i = bit (register_raw32 r) i"
proof -
  have lt: "e - s < 31" using assms(1,2) by (rule set32_Some)
  have fit: "uint v < 2 ^ nat (e - s + 1)"
    using assms(2) by (simp add: set32_closed [OF assms(1) lt] split: if_splits)
  have out: "i < nat s \<or> nat s + nat (e - s + 1) \<le> i"
    using assms(1,3) by (intro outside_field) (auto simp: static_assert_32_def)
  have "r' = r\<lparr>register_raw32 :=
        (register_raw32 r AND NOT (push_bit (nat s) (mask (nat (e - s + 1))))) OR push_bit (nat s) v\<rparr>"
    using assms(2) by (simp add: set32_succeeds [OF assms(1) lt fit])
  then show ?thesis by (simp add: frame_word [OF fit out])
qed

lemma set_rejects_16:
  assumes "static_assert_16 s e" and "2 ^ nat (e - s + 1) \<le> uint v"
  shows "IMPLEMENT_REGISTER_16_SET s e v r = Some (False, r)"
  using assms(2) by (simp add: set16_closed [OF assms(1)])

lemma set_rejects_32:
  assumes "static_assert_32 s e" and "2 ^ nat (e - s + 1) \<le> uint v"
  shows "IMPLEMENT_REGISTER_32_SET s e v r = Some (False, r)"
proof -
  have "uint v < 2 ^ 32" using uint_bounded [of v] by simp
  with assms(2) have "(2::int) ^ nat (e - s + 1) < 2 ^ 32" by linarith
  then have "nat (e - s + 1) < 32" by (rule power_less_imp_less_exp [of "2::int", rotated]) simp
  then have lt: "e - s < 31" by simp
  show ?thesis using assms(2) by (simp add: set32_closed [OF assms(1) lt])
qed



section \<open>What the permission check admits\<close>

lemma perms_set_denied:
  assumes "p = READ \<or> p = NONE"
  shows "IMPLEMENT_REGISTER_16_SET_WITH_PERMS s e p v r = Some (False, r)"
    and "IMPLEMENT_REGISTER_32_SET_WITH_PERMS s e p u q = Some (False, q)"
  using assms by (auto simp add: set16_with_perms set32_with_perms write_allowed_iff)

lemma perms_get_denied:
  assumes "p = WRITE \<or> p = NONE"
  shows "IMPLEMENT_REGISTER_16_GET_WITH_PERMS s e p r = Some 0"
    and "IMPLEMENT_REGISTER_32_GET_WITH_PERMS s e p q = Some 0"
  using assms by (auto simp add: get16_with_perms get32_with_perms read_allowed_iff)

lemma perms_read_write_16:
  assumes "static_assert_16 s e" and "uint v < 2 ^ nat (e - s + 1)"
  shows "\<exists>x. IMPLEMENT_REGISTER_16_GET_WITH_PERMS s e READ_WRITE r = Some x
            \<and> IMPLEMENT_REGISTER_16_GET s e r = Some x"
    and "\<exists>r'. IMPLEMENT_REGISTER_16_SET_WITH_PERMS s e READ_WRITE v r = Some (True, r')"
  using assms
  by (simp_all add: get16_with_perms set16_with_perms read_allowed_iff write_allowed_iff
      get16_closed set16_succeeds)

lemma perms_read_write_32:
  assumes "static_assert_32 s e" and "e - s < 31" and "uint v < 2 ^ nat (e - s + 1)"
  shows "\<exists>x. IMPLEMENT_REGISTER_32_GET_WITH_PERMS s e READ_WRITE r = Some x
            \<and> IMPLEMENT_REGISTER_32_GET s e r = Some x"
    and "\<exists>r'. IMPLEMENT_REGISTER_32_SET_WITH_PERMS s e READ_WRITE v r = Some (True, r')"
  using assms
  by (simp_all add: get32_with_perms set32_with_perms read_allowed_iff write_allowed_iff
      get32_closed set32_succeeds)

lemma link_control_scenario:
  "get_register_value_16_with_perms new_register_16 = 0x0
   \<and> set_root_completion_boundary 1 new_register_16 = Some (False, new_register_16)
   \<and> set_link_disable 1 new_register_16 = Some (True, \<lparr>register_raw = 0b10000\<rparr>)
   \<and> get_link_disable \<lparr>register_raw = 0b10000\<rparr> = Some 0b1"
  by (simp add: get_register_value_16_with_perms_def new_register_16_def
      set_root_completion_boundary_def set_link_disable_def get_link_disable_def
      set16_with_perms get16_with_perms read_allowed_iff write_allowed_iff
      IMPLEMENT_REGISTER_16_SET_def IMPLEMENT_REGISTER_16_GET_def
      shl_def shr_signed_def shift_ok_def)

section \<open>Which accessors meet an undefined shift\<close>

lemma shifts_defined_16:
  assumes "static_assert_16 s e"
  shows "IMPLEMENT_REGISTER_16_GET s e r \<noteq> None"
    and "IMPLEMENT_REGISTER_16_SET s e v r \<noteq> None"
    and "IMPLEMENT_REGISTER_16_GET_WITH_PERMS s e p r \<noteq> None"
    and "IMPLEMENT_REGISTER_16_SET_WITH_PERMS s e p v r \<noteq> None"
  by (auto simp add: get16_closed [OF assms] set16_closed [OF assms]
      get16_with_perms set16_with_perms)

lemma shifts_defined_32:
  assumes "static_assert_32 s e"
  shows "IMPLEMENT_REGISTER_32_GET s e r \<noteq> None"
    and "IMPLEMENT_REGISTER_32_GET_WITH_PERMS s e p r \<noteq> None"
    and "IMPLEMENT_REGISTER_32_SET s e v r \<noteq> None \<longleftrightarrow> e - s < 31"
proof -
  show "IMPLEMENT_REGISTER_32_GET s e r \<noteq> None"
    and "IMPLEMENT_REGISTER_32_GET_WITH_PERMS s e p r \<noteq> None"
    by (simp_all add: get32_closed [OF assms] get32_with_perms)
  show "IMPLEMENT_REGISTER_32_SET s e v r \<noteq> None \<longleftrightarrow> e - s < 31"
  proof (cases "e - s < 31")
    case True
    then show ?thesis by (auto simp add: set32_closed [OF assms True])
  next
    case False
    with assms have "e - s = 31" by (auto simp: static_assert_32_def)
    with False show ?thesis by (simp add: set32_undefined [OF assms])
  qed
qed

section \<open>The claims\<close>

text \<open>
  C1: for both widths, every field with \<open>0 \<le> start \<le> end < W\<close> and every value
  below \<open>2 ^ (end - start + 1)\<close>, a successful set of the field followed by a get of the
  field returns the value.  Lemma \<open>field_roundtrip_16\<close> proves it for the 16-bit macros and
  \<open>field_roundtrip_32_narrow\<close> for the fields of a 32-bit register that are at most 16 bits
  wide.  The 32-bit getter is declared to return \<open>uint16_t\<close> and keeps \<open>register_raw >> START\<close>
  in a \<open>uint16_t\<close>, so on a wider field the value read back has lost its upper bits: the
  field 0:16 is set to \<open>0x10000\<close>, and the getter returns 0.
\<close>

theorem set_then_get_32_wide_field:
  "static_assert_32 0 16 \<and> uint (0x10000 :: uint32_t) < 2 ^ nat (16 - 0 + 1)
   \<and> IMPLEMENT_REGISTER_32_SET 0 16 0x10000 new_register_32
        = Some (True, \<lparr>register_raw32 = 0x10000\<rparr>)
   \<and> IMPLEMENT_REGISTER_32_GET 0 16 \<lparr>register_raw32 = 0x10000\<rparr> = Some 0"
  by (simp add: static_assert_32_def new_register_32_def IMPLEMENT_REGISTER_32_SET_def
      IMPLEMENT_REGISTER_32_GET_def shl_def shr_unsigned_def shift_ok_def)

text \<open>
  C2: for both widths the getter returns \<open>(raw >> start) & mask\<close>, the mask having
  \<open>end - start + 1\<close> low bits, with no narrowing.  Lemma \<open>get16_closed\<close> proves it for
  the 16-bit getter.  Lemma \<open>get32_closed\<close> shows the 32-bit getter returning that value
  narrowed to 16 bits: on the field 8:31 of \<open>0xDEADBEEF\<close> it returns \<open>0xADBE\<close>, where
  the shifted and masked value is \<open>0xDEADBE\<close>.
\<close>

theorem get_32_wide_field:
  "static_assert_32 8 31
   \<and> IMPLEMENT_REGISTER_32_GET 8 31 \<lparr>register_raw32 = 0xDEADBEEF\<rparr> = Some 0xADBE
   \<and> drop_bit 8 (0xDEADBEEF :: uint32_t) AND mask (31 - 8 + 1) = 0xDEADBE"
  by (simp add: static_assert_32_def IMPLEMENT_REGISTER_32_GET_def shr_unsigned_def shift_ok_def
      mask_eq_exp_minus_1)

text \<open>
  C3: for both widths, a successful set of a field with \<open>0 \<le> start \<le> end < W\<close> to a
  value below \<open>2 ^ (end - start + 1)\<close> leaves every bit outside \<open>[start, end]\<close> of the raw
  value as it was.  The setters with a permission check are covered as well: they succeed
  only where the plain setter does.
\<close>

theorem set_field_frame:
  "(static_assert_16 s e \<and> uint v < 2 ^ nat (e - s + 1)
      \<and> (IMPLEMENT_REGISTER_16_SET s e v r = Some (True, r')
          \<or> IMPLEMENT_REGISTER_16_SET_WITH_PERMS s e p v r = Some (True, r'))
    \<longrightarrow> (\<forall>i. int i < s \<or> e < int i \<longrightarrow> bit (register_raw r') i = bit (register_raw r) i))
   \<and> (static_assert_32 s e \<and> uint u < 2 ^ nat (e - s + 1)
      \<and> (IMPLEMENT_REGISTER_32_SET s e u q = Some (True, q')
          \<or> IMPLEMENT_REGISTER_32_SET_WITH_PERMS s e p u q = Some (True, q'))
    \<longrightarrow> (\<forall>i. int i < s \<or> e < int i \<longrightarrow> bit (register_raw32 q') i = bit (register_raw32 q) i))"
proof -
  have "IMPLEMENT_REGISTER_16_SET s e v r = Some (True, r')"
    if "IMPLEMENT_REGISTER_16_SET_WITH_PERMS s e p v r = Some (True, r')"
    using that by (simp add: set16_with_perms split: if_splits)
  moreover have "IMPLEMENT_REGISTER_32_SET s e u q = Some (True, q')"
    if "IMPLEMENT_REGISTER_32_SET_WITH_PERMS s e p u q = Some (True, q')"
    using that by (simp add: set32_with_perms split: if_splits)
  ultimately show ?thesis
    using set_frame_16 [of s e v r r'] set_frame_32 [of s e u q q'] by blast
qed

theorem set_field_frame_witness:
  "(static_assert_16 3 7 \<and> uint (5 :: uint16_t) < 2 ^ nat (7 - 3 + 1)
      \<and> IMPLEMENT_REGISTER_16_SET 3 7 5 \<lparr>register_raw = 0xFFFF\<rparr>
            = Some (True, \<lparr>register_raw = 0xFF2F\<rparr>))
   \<and> bit (0xFF2F :: uint16_t) 2 = bit (0xFFFF :: uint16_t) 2
   \<and> bit (0xFF2F :: uint16_t) 8 = bit (0xFFFF :: uint16_t) 8
   \<and> (static_assert_32 3 7 \<and> uint (5 :: uint32_t) < 2 ^ nat (7 - 3 + 1)
      \<and> IMPLEMENT_REGISTER_32_SET 3 7 5 \<lparr>register_raw32 = 0xDEADBEEF\<rparr>
            = Some (True, \<lparr>register_raw32 = 0xDEADBE2F\<rparr>))
   \<and> bit (0xDEADBE2F :: uint32_t) 2 = bit (0xDEADBEEF :: uint32_t) 2
   \<and> bit (0xDEADBE2F :: uint32_t) 8 = bit (0xDEADBEEF :: uint32_t) 8"
proof -
  have h16: "static_assert_16 3 7 \<and> uint (5 :: uint16_t) < 2 ^ nat (7 - 3 + 1)
      \<and> IMPLEMENT_REGISTER_16_SET 3 7 5 \<lparr>register_raw = 0xFFFF\<rparr>
            = Some (True, \<lparr>register_raw = 0xFF2F\<rparr>)"
    by (simp add: static_assert_16_def IMPLEMENT_REGISTER_16_SET_def shl_def shr_signed_def
        shift_ok_def)
  have h32: "static_assert_32 3 7 \<and> uint (5 :: uint32_t) < 2 ^ nat (7 - 3 + 1)
      \<and> IMPLEMENT_REGISTER_32_SET 3 7 5 \<lparr>register_raw32 = 0xDEADBEEF\<rparr>
            = Some (True, \<lparr>register_raw32 = 0xDEADBE2F\<rparr>)"
    by (simp add: static_assert_32_def IMPLEMENT_REGISTER_32_SET_def shl_def shr_unsigned_def
        shift_ok_def)
  note frame = set_field_frame [of 3 7 5 "\<lparr>register_raw = 0xFFFF\<rparr>" "\<lparr>register_raw = 0xFF2F\<rparr>"
      READ_WRITE 5 "\<lparr>register_raw32 = 0xDEADBEEF\<rparr>" "\<lparr>register_raw32 = 0xDEADBE2F\<rparr>"]
  have out: "int 2 < 3 \<or> 7 < int 2" "int 8 < 3 \<or> 7 < int 8" by simp_all
  from frame h16 out
  have "bit (register_raw \<lparr>register_raw = 0xFF2F\<rparr>) 2 = bit (register_raw \<lparr>register_raw = 0xFFFF\<rparr>) 2"
    and "bit (register_raw \<lparr>register_raw = 0xFF2F\<rparr>) 8 = bit (register_raw \<lparr>register_raw = 0xFFFF\<rparr>) 8"
    by blast+
  moreover from frame h32 out
  have "bit (register_raw32 \<lparr>register_raw32 = 0xDEADBE2F\<rparr>) 2
          = bit (register_raw32 \<lparr>register_raw32 = 0xDEADBEEF\<rparr>) 2"
    and "bit (register_raw32 \<lparr>register_raw32 = 0xDEADBE2F\<rparr>) 8
          = bit (register_raw32 \<lparr>register_raw32 = 0xDEADBEEF\<rparr>) 8"
    by blast+
  ultimately show ?thesis using h16 h32
    by (simp only: register_16.simps register_32.simps)
qed

text \<open>
  C4: for both widths and every field with \<open>0 \<le> start \<le> end < W\<close>, a set with a value
  of at least \<open>2 ^ (end - start + 1)\<close> returns \<open>false\<close> and leaves the raw value as it
  was; so do the setters with a permission check, whatever the permission.  (No
  \<open>uint32_t\<close> reaches \<open>2 ^ 32\<close>, so the full-width field of a 32-bit register has no
  such value.)
\<close>

theorem set_field_out_of_range:
  "(static_assert_16 s e \<and> 2 ^ nat (e - s + 1) \<le> uint v
      \<longrightarrow> IMPLEMENT_REGISTER_16_SET s e v r = Some (False, r)
        \<and> IMPLEMENT_REGISTER_16_SET_WITH_PERMS s e p v r = Some (False, r))
   \<and> (static_assert_32 s e \<and> 2 ^ nat (e - s + 1) \<le> uint u
      \<longrightarrow> IMPLEMENT_REGISTER_32_SET s e u q = Some (False, q)
        \<and> IMPLEMENT_REGISTER_32_SET_WITH_PERMS s e p u q = Some (False, q))"
  using set_rejects_16 [of s e v r] set_rejects_32 [of s e u q]
  by (simp add: set16_with_perms set32_with_perms)

theorem set_field_out_of_range_witness:
  "static_assert_16 3 7 \<and> 2 ^ nat (7 - 3 + 1) \<le> uint (32 :: uint16_t)
   \<and> IMPLEMENT_REGISTER_16_SET 3 7 32 \<lparr>register_raw = 0xFFFF\<rparr>
        = Some (False, \<lparr>register_raw = 0xFFFF\<rparr>)
   \<and> IMPLEMENT_REGISTER_16_SET_WITH_PERMS 3 7 READ_WRITE 32 \<lparr>register_raw = 0xFFFF\<rparr>
        = Some (False, \<lparr>register_raw = 0xFFFF\<rparr>)
   \<and> static_assert_32 3 7 \<and> 2 ^ nat (7 - 3 + 1) \<le> uint (0x80000000 :: uint32_t)
   \<and> IMPLEMENT_REGISTER_32_SET 3 7 0x80000000 \<lparr>register_raw32 = 0xDEADBEEF\<rparr>
        = Some (False, \<lparr>register_raw32 = 0xDEADBEEF\<rparr>)
   \<and> IMPLEMENT_REGISTER_32_SET_WITH_PERMS 3 7 READ_WRITE 0x80000000 \<lparr>register_raw32 = 0xDEADBEEF\<rparr>
        = Some (False, \<lparr>register_raw32 = 0xDEADBEEF\<rparr>)"
proof -
  have h16: "static_assert_16 3 7 \<and> 2 ^ nat (7 - 3 + 1) \<le> uint (32 :: uint16_t)"
    by (simp add: static_assert_16_def)
  have h32: "static_assert_32 3 7 \<and> 2 ^ nat (7 - 3 + 1) \<le> uint (0x80000000 :: uint32_t)"
    by (simp add: static_assert_32_def)
  from set_field_out_of_range [of 3 7 32 "\<lparr>register_raw = 0xFFFF\<rparr>" READ_WRITE
      "0x80000000" "\<lparr>register_raw32 = 0xDEADBEEF\<rparr>"] h16 h32
  show ?thesis by blast
qed

text \<open>
  C5: on a register with permissions, a get of a \<open>WRITE\<close> or \<open>NONE\<close> field fails, a set of
  a \<open>READ\<close> or \<open>NONE\<close> field fails and leaves the raw value, and on a \<open>READ_WRITE\<close> field
  the get succeeds and the set of a value in range succeeds.  Lemmas \<open>perms_get_denied\<close>
  and \<open>perms_set_denied\<close> prove the two refusals for both widths, \<open>perms_read_write_16\<close>
  proves the last part for every field of a 16-bit register, and \<open>perms_read_write_32\<close>
  for every field of a 32-bit register but the full-width one.  On the field 0:31 of a
  32-bit register every value is in range, and the range check of the setter evaluates
  \<open>1 << 32\<close> on an \<open>int\<close>: the set of 1 does not succeed.
\<close>

theorem permission_checked_set_32_full_width:
  "static_assert_32 0 31 \<and> write_allowed READ_WRITE
   \<and> uint (1 :: uint32_t) < 2 ^ nat (31 - 0 + 1)
   \<and> IMPLEMENT_REGISTER_32_SET_WITH_PERMS 0 31 READ_WRITE 1 new_register_32 = None"
  by (simp add: static_assert_32_def write_allowed_def
      IMPLEMENT_REGISTER_32_SET_WITH_PERMS_def shl_def shift_ok_def)

text \<open>
  C6: on each of the four register classes, \<open>get_register_value\<close> after
  \<open>set_register_value(x)\<close> returns \<open>x\<close>, and after \<open>clear_register_value()\<close> it returns 0.
  The three members are total functions: none of them has a failure result.
\<close>

theorem whole_register_roundtrip:
  "get_register_value_16 (set_register_value_16 x r) = x
   \<and> get_register_value_16 (clear_register_value_16 r) = 0
   \<and> get_register_value_32 (set_register_value_32 y q) = y
   \<and> get_register_value_32 (clear_register_value_32 q) = 0
   \<and> get_register_value_16_with_perms (set_register_value_16_with_perms x r) = x
   \<and> get_register_value_16_with_perms (clear_register_value_16_with_perms r) = 0
   \<and> get_register_value_32_with_perms (set_register_value_32_with_perms y q) = y
   \<and> get_register_value_32_with_perms (clear_register_value_32_with_perms q) = 0"
  by (simp add: get_register_value_16_def set_register_value_16_def clear_register_value_16_def
      get_register_value_32_def set_register_value_32_def clear_register_value_32_def
      get_register_value_16_with_perms_def set_register_value_16_with_perms_def
      clear_register_value_16_with_perms_def get_register_value_32_with_perms_def
      set_register_value_32_with_perms_def clear_register_value_32_with_perms_def)

text \<open>
  C7: for every field with \<open>0 \<le> start \<le> end < W\<close>, every shift of the getter and the
  setter has an amount below the width of the shifted type.  Lemma \<open>shifts_defined_16\<close>
  proves it for the 16-bit accessors, and \<open>shifts_defined_32\<close> for the 32-bit getter and
  for the 32-bit setter on every field but the full-width one.  On the field 0:31 the
  range check of the 32-bit setter shifts the \<open>int\<close> \<open>1\<close> by \<open>31 - 0 + 1 = 32\<close>, the width
  of \<open>int\<close>.
\<close>

theorem overflow_check_shifts_by_full_width:
  "static_assert_32 0 31
   \<and> \<not> shift_ok LENGTH(32) (31 - 0 + 1)
   \<and> shl (1 :: c_int) (31 - 0 + 1) = None
   \<and> IMPLEMENT_REGISTER_32_SET 0 31 0 new_register_32 = None"
  by (simp add: static_assert_32_def IMPLEMENT_REGISTER_32_SET_def shl_def shift_ok_def)

text \<open>
  C8: the scenario of the example program on \<open>link_capabilites_register\<close>: after
  \<open>set_register_value(0xDEADBEEF)\<close>, \<open>get_aspm_support()\<close> is \<open>0b11\<close>; after
  \<open>clear_register_value()\<close> the raw value is 0; \<open>set_max_link_speed(0xF)\<close> then makes it
  \<open>0x0000000F\<close>, and \<open>set_port_number(0xFF)\<close> after that \<open>0xFF00000F\<close>.
\<close>

theorem link_capabilities_scenario:
  "get_aspm_support (set_register_value_32 0xDEADBEEF new_register_32) = Some 0b11
   \<and> get_register_value_32
        (clear_register_value_32 (set_register_value_32 0xDEADBEEF new_register_32)) = 0x0
   \<and> set_max_link_speed 0xF
        (clear_register_value_32 (set_register_value_32 0xDEADBEEF new_register_32))
        = Some (True, \<lparr>register_raw32 = 0x0000000F\<rparr>)
   \<and> set_port_number 0xFF \<lparr>register_raw32 = 0x0000000F\<rparr>
        = Some (True, \<lparr>register_raw32 = 0xFF00000F\<rparr>)"
  by (simp add: get_aspm_support_def set_max_link_speed_def set_port_number_def
      set_register_value_32_def clear_register_value_32_def get_register_value_32_def
      new_register_32_def IMPLEMENT_REGISTER_32_GET_def IMPLEMENT_REGISTER_32_SET_def
      shl_def shr_unsigned_def shift_ok_def)

text \<open>
  C9: on a register with permissions, the getter of a field whose permission is \<open>WRITE\<close>
  or \<open>NONE\<close> returns \<open>false\<close> converted to \<open>uint16_t\<close>, which is 0, for every raw value and
  without reading it; a permitted getter returns the same 0 on a cleared register, so
  the two cannot be told apart by the result.
\<close>

theorem denied_get_returns_false:
  "IMPLEMENT_REGISTER_16_GET_WITH_PERMS s e WRITE r = Some (of_bool False)
   \<and> IMPLEMENT_REGISTER_16_GET_WITH_PERMS s e NONE r = Some (of_bool False)
   \<and> IMPLEMENT_REGISTER_32_GET_WITH_PERMS s e WRITE q = Some (of_bool False)
   \<and> IMPLEMENT_REGISTER_32_GET_WITH_PERMS s e NONE q = Some (of_bool False)
   \<and> (of_bool False :: uint16_t) = 0
   \<and> (static_assert_16 s e \<longrightarrow>
        IMPLEMENT_REGISTER_16_GET_WITH_PERMS s e READ (clear_register_value_16_with_perms r)
          = Some 0)
   \<and> (static_assert_32 s e \<longrightarrow>
        IMPLEMENT_REGISTER_32_GET_WITH_PERMS s e READ (clear_register_value_32_with_perms q)
          = Some 0)"
  by (simp add: get16_with_perms get32_with_perms read_allowed_iff get16_closed get32_closed
      clear_register_value_16_with_perms_def clear_register_value_32_with_perms_def)

theorem denied_get_returns_false_witness:
  "IMPLEMENT_REGISTER_16_GET_WITH_PERMS 8 11 WRITE \<lparr>register_raw = 0xFFFF\<rparr> = Some 0
   \<and> IMPLEMENT_REGISTER_16_GET_WITH_PERMS 8 11 NONE \<lparr>register_raw = 0xFFFF\<rparr> = Some 0
   \<and> IMPLEMENT_REGISTER_32_GET_WITH_PERMS 8 11 WRITE \<lparr>register_raw32 = 0xDEADBEEF\<rparr> = Some 0
   \<and> IMPLEMENT_REGISTER_32_GET_WITH_PERMS 8 11 NONE \<lparr>register_raw32 = 0xDEADBEEF\<rparr> = Some 0
   \<and> static_assert_16 8 11
   \<and> IMPLEMENT_REGISTER_16_GET_WITH_PERMS 8 11 READ
        (clear_register_value_16_with_perms \<lparr>register_raw = 0xFFFF\<rparr>) = Some 0
   \<and> static_assert_32 8 11
   \<and> IMPLEMENT_REGISTER_32_GET_WITH_PERMS 8 11 READ
        (clear_register_value_32_with_perms \<lparr>register_raw32 = 0xDEADBEEF\<rparr>) = Some 0"
proof -
  have h: "static_assert_16 8 11" "static_assert_32 8 11"
    by (simp_all add: static_assert_16_def static_assert_32_def)
  from denied_get_returns_false [of 8 11 "\<lparr>register_raw = 0xFFFF\<rparr>"
      "\<lparr>register_raw32 = 0xDEADBEEF\<rparr>"] h
  show ?thesis by simp
qed

text \<open>
  C10: on a register with permissions, \<open>set_register_value(x)\<close> and
  \<open>clear_register_value()\<close> have no failure result and replace the whole raw value: the
  state after them is \<open>x\<close>, or 0, in every bit, whatever fields and permissions the register
  declares.  The permissions act in the field setters only, which refuse a \<open>READ\<close> or
  \<open>NONE\<close> field on the same register.
\<close>

theorem whole_register_ignores_perms:
  "set_register_value_16_with_perms x r = \<lparr>register_raw = x\<rparr>
   \<and> clear_register_value_16_with_perms r = \<lparr>register_raw = 0\<rparr>
   \<and> set_register_value_32_with_perms y q = \<lparr>register_raw32 = y\<rparr>
   \<and> clear_register_value_32_with_perms q = \<lparr>register_raw32 = 0\<rparr>
   \<and> IMPLEMENT_REGISTER_16_SET_WITH_PERMS s e READ v r = Some (False, r)
   \<and> IMPLEMENT_REGISTER_16_SET_WITH_PERMS s e NONE v r = Some (False, r)
   \<and> IMPLEMENT_REGISTER_32_SET_WITH_PERMS s e READ u q = Some (False, q)
   \<and> IMPLEMENT_REGISTER_32_SET_WITH_PERMS s e NONE u q = Some (False, q)"
  by (simp add: set_register_value_16_with_perms_def clear_register_value_16_with_perms_def
      set_register_value_32_with_perms_def clear_register_value_32_with_perms_def
      set16_with_perms set32_with_perms write_allowed_iff)

end
